theory Spec2Isabelle
  imports Complex_Main "HOL-Library.Char_ord" "HOL-Library.List_Lexorder"
begin

section \<open>Driver fatigue prediction: the scoring formula and the risk bands\<close>

text \<open>
  The development follows \<^verbatim>\<open>src/fatigue_project/model.py\<close>,
  \<^verbatim>\<open>utils.py\<close> and \<^verbatim>\<open>streamlit_app.py\<close>.

  Numbers. The Python code computes on IEEE doubles (and on the integers the form yields
  for age and stress). Two readings of the arithmetic are given. In
  \<open>weighted_fatigue_score\<close> every number is a \<^typ>\<open>real\<close>: arithmetic is exact and the
  order is total. The sign of the score, its monotonicity, the bands and the labels are
  stated of this reading. In \<open>weighted_fatigue_score64\<close> every number is a binary64 value
  (finite, infinite or NaN) and every operation rounds to the nearest double, ties to
  even. The value of the score to the last bit is stated of that reading.

  Strings. A Python string is modelled by its UTF-8 bytes, non-ASCII bytes written as
  \<open>CHR 0x..\<close>.
\<close>

subsection \<open>Rows\<close>

text \<open>
  A row of the synthetic data frame (\<^verbatim>\<open>generate_synthetic_data\<close>, lines 11-19) has
  the seven columns below. The form's \<^verbatim>\<open>input_data\<close> dictionary
  (\<^verbatim>\<open>streamlit_app.py\<close>, lines 135-144) has the same keys and \<^verbatim>\<open>Name\<close>;
  it is the extension \<open>driver_input\<close>. Functions that only read the seven columns
  take any extension of \<open>feature_row\<close>.
\<close>

record feature_row =
  Sleep_Hours :: real
  Driving_Hours :: real
  Caffeine_Cups :: real
  Rest_Breaks :: real
  Age :: int
  Stress_Level :: real
  Time_of_Day :: string

record driver_input = feature_row +
  Name :: string

subsection \<open>\<^verbatim>\<open>weighted_fatigue_score\<close> (model.py, lines 25-34)\<close>

text \<open>
  The body is the source's sequence of updates of the local \<^verbatim>\<open>score\<close>, one
  \<open>let\<close> per statement. Python's \<^verbatim>\<open>max(0, x)\<close> is \<open>max 0 x\<close>.
\<close>

definition weighted_fatigue_score :: "'a feature_row_scheme \<Rightarrow> real" where
  "weighted_fatigue_score row =
     (let score = 0;
          score = score + max 0 (8 - Sleep_Hours row) * 1.5;
          score = score + max 0 (Driving_Hours row - 6) * 1.2;
          score = score + (if Caffeine_Cups row \<ge> 2 then 0 else 1.0);
          score = score + max 0 (20 - Rest_Breaks row) * 0.1;
          score = score + (if Stress_Level row > 5 then (Stress_Level row - 5) * 0.5 else 0);
          score = (if Time_of_Day row = ''Night'' then score + 1.0 else score)
      in score)"

subsection \<open>Binary64 arithmetic\<close>

text \<open>
  A double is a finite value, an infinity or NaN. A finite double is a real of the form
  \<open>m * 2^e\<close> with an integer \<open>\<bar>m\<bar> < 2^53\<close> and \<open>-1074 \<le> e \<le> 971\<close>; the two zeros
  are not told apart (they compare equal and the score does no division).

  \<open>round_binary64\<close> rounds a real to the nearest such value, ties to the even
  mantissa. A magnitude of at least \<open>2^53\<close> is halved until it is below \<open>2^53\<close>; a
  smaller one is doubled until it reaches \<open>2^52\<close>, at most 1074 times (below that the
  doubles are subnormal and their spacing stays \<open>2^-1074\<close>). The scaled magnitude is
  rounded to an integer and scaled back. A result of magnitude \<open>2^1024\<close> or more is an
  overflow: Python's float \<open>+\<close>, \<open>-\<close> and \<open>*\<close> then give an infinity.
\<close>

datatype binary64 = Finite real | PosInf | NegInf | NaN

definition round_half_even :: "real \<Rightarrow> int" where
  "round_half_even y =
     (let f = \<lfloor>y\<rfloor>; d = y - of_int f
      in if d < 1/2 then f else if 1/2 < d then f + 1 else if even f then f else f + 1)"

fun halvings :: "nat \<Rightarrow> real \<Rightarrow> nat" where
  "halvings 0 a = 0"
| "halvings (Suc n) a = (if a < 2 ^ 53 then 0 else Suc (halvings n (a / 2)))"

fun doublings :: "nat \<Rightarrow> real \<Rightarrow> nat" where
  "doublings 0 a = 0"
| "doublings (Suc n) a = (if 2 ^ 52 \<le> a then 0 else Suc (doublings n (a * 2)))"

definition round_binary64 :: "real \<Rightarrow> real" where
  "round_binary64 x =
     (if x = 0 then 0
      else if 2 ^ 53 \<le> \<bar>x\<bar> then
        (let h = halvings 2048 \<bar>x\<bar>
         in sgn x * (of_int (round_half_even (\<bar>x\<bar> / 2 ^ h)) * 2 ^ h))
      else
        (let u = doublings 1074 \<bar>x\<bar>
         in sgn x * (of_int (round_half_even (\<bar>x\<bar> * 2 ^ u)) / 2 ^ u)))"

definition to_binary64 :: "real \<Rightarrow> binary64" where
  "to_binary64 x =
     (let r = round_binary64 x
      in if 2 ^ 1024 \<le> r then PosInf else if r \<le> - (2 ^ 1024) then NegInf else Finite r)"

fun neg64 :: "binary64 \<Rightarrow> binary64" where
  "neg64 (Finite a) = Finite (- a)"
| "neg64 PosInf = NegInf"
| "neg64 NegInf = PosInf"
| "neg64 NaN = NaN"

fun add64 :: "binary64 \<Rightarrow> binary64 \<Rightarrow> binary64" where
  "add64 NaN y = NaN"
| "add64 x NaN = NaN"
| "add64 (Finite a) (Finite b) = to_binary64 (a + b)"
| "add64 PosInf NegInf = NaN"
| "add64 NegInf PosInf = NaN"
| "add64 PosInf y = PosInf"
| "add64 x PosInf = PosInf"
| "add64 NegInf y = NegInf"
| "add64 x NegInf = NegInf"

definition sub64 :: "binary64 \<Rightarrow> binary64 \<Rightarrow> binary64" where
  "sub64 x y = add64 x (neg64 y)"

text \<open>The product of an infinity with a finite factor of the given sign.\<close>

definition inf_of_sign :: "real \<Rightarrow> binary64" where
  "inf_of_sign a = (if a = 0 then NaN else if 0 < a then PosInf else NegInf)"

fun mul64 :: "binary64 \<Rightarrow> binary64 \<Rightarrow> binary64" where
  "mul64 NaN y = NaN"
| "mul64 x NaN = NaN"
| "mul64 (Finite a) (Finite b) = to_binary64 (a * b)"
| "mul64 (Finite a) PosInf = inf_of_sign a"
| "mul64 (Finite a) NegInf = inf_of_sign (- a)"
| "mul64 PosInf (Finite b) = inf_of_sign b"
| "mul64 NegInf (Finite b) = inf_of_sign (- b)"
| "mul64 PosInf PosInf = PosInf"
| "mul64 NegInf NegInf = PosInf"
| "mul64 PosInf NegInf = NegInf"
| "mul64 NegInf PosInf = NegInf"

text \<open>Comparisons: every comparison with NaN is false.\<close>

fun lt64 :: "binary64 \<Rightarrow> binary64 \<Rightarrow> bool" where
  "lt64 NaN y = False"
| "lt64 x NaN = False"
| "lt64 (Finite a) (Finite b) = (a < b)"
| "lt64 x NegInf = False"
| "lt64 NegInf y = True"
| "lt64 PosInf y = False"
| "lt64 x PosInf = True"

fun le64 :: "binary64 \<Rightarrow> binary64 \<Rightarrow> bool" where
  "le64 NaN y = False"
| "le64 x NaN = False"
| "le64 (Finite a) (Finite b) = (a \<le> b)"
| "le64 NegInf y = True"
| "le64 x NegInf = False"
| "le64 x PosInf = True"
| "le64 PosInf y = False"

definition gt64 :: "binary64 \<Rightarrow> binary64 \<Rightarrow> bool" where
  "gt64 x y = lt64 y x"

definition ge64 :: "binary64 \<Rightarrow> binary64 \<Rightarrow> bool" where
  "ge64 x y = le64 y x"

text \<open>
  Python's \<^verbatim>\<open>max(0, x)\<close> keeps its first argument unless the second is greater, so
  it is 0 for NaN.
\<close>

definition py_max_0 :: "binary64 \<Rightarrow> binary64" where
  "py_max_0 x = (if gt64 x (Finite 0) then x else Finite 0)"

subsection \<open>\<^verbatim>\<open>weighted_fatigue_score\<close> on doubles\<close>

text \<open>
  The same body, statement by statement, on a row whose numeric fields are doubles.
  The integer literals 8, 6, 20, 5, 2 and 0 and the literals 1.5, 0.5 and 1.0 are doubles
  as they stand; 1.2 and 0.1 are not and stand for the nearest double. A field that holds
  a Python integer (the form's stress level, 1 to 10) is the double of the same value.
  The age is not read and is left to the row's extension.
\<close>

record binary64_row =
  Sleep_Hours64 :: binary64
  Driving_Hours64 :: binary64
  Caffeine_Cups64 :: binary64
  Rest_Breaks64 :: binary64
  Stress_Level64 :: binary64
  Time_of_Day64 :: string

definition weighted_fatigue_score64 :: "'a binary64_row_scheme \<Rightarrow> binary64" where
  "weighted_fatigue_score64 row =
     (let score = Finite 0;
          score = add64 score
                    (mul64 (py_max_0 (sub64 (Finite 8) (Sleep_Hours64 row))) (Finite 1.5));
          score = add64 score
                    (mul64 (py_max_0 (sub64 (Driving_Hours64 row) (Finite 6))) (to_binary64 1.2));
          score = add64 score
                    (if ge64 (Caffeine_Cups64 row) (Finite 2) then Finite 0 else Finite 1.0);
          score = add64 score
                    (mul64 (py_max_0 (sub64 (Finite 20) (Rest_Breaks64 row))) (to_binary64 0.1));
          score = add64 score
                    (if gt64 (Stress_Level64 row) (Finite 5)
                     then mul64 (sub64 (Stress_Level64 row) (Finite 5)) (Finite 0.5)
                     else Finite 0);
          score = (if Time_of_Day64 row = ''Night'' then add64 score (Finite 1.0) else score)
      in score)"

subsection \<open>Risk helpers (utils.py, lines 8-36)\<close>

definition get_risk_color :: "real \<Rightarrow> string" where
  "get_risk_color score =
     (if score < 3 then ''#10b981''
      else if score < 5 then ''#f59e0b''
      else ''#ef4444'')"

definition get_risk_level :: "real \<Rightarrow> string" where
  "get_risk_level score =
     (if score < 3 then ''Low Risk''
      else if score < 5 then ''Moderate Risk''
      else ''High Risk'')"

text \<open>
  The three message literals of \<^verbatim>\<open>get_action_message\<close>. The non-ASCII characters are
  U+2705 (check mark), U+26A0 U+FE0F (warning sign), U+1F6AB (no entry), U+2013 (en dash)
  and U+2014 (em dash).
\<close>

definition safe_message :: string where
  "safe_message =
     [CHR 0xE2, CHR 0x9C, CHR 0x85] @
     '' SAFE: Driver can continue driving. Maintain standard vigilance. '' @
     ''Encourage brief breaks every 2'' @ [CHR 0xE2, CHR 0x80, CHR 0x93] @ ''3 hours.''"

definition caution_message :: string where
  "caution_message =
     [CHR 0xE2, CHR 0x9A, CHR 0xA0, CHR 0xEF, CHR 0xB8, CHR 0x8F] @
     '' CAUTION: Moderate risk '' @ [CHR 0xE2, CHR 0x80, CHR 0x94] @
     '' recommend a SHORT rest (15'' @ [CHR 0xE2, CHR 0x80, CHR 0x93] @
     ''30 min) and reassess. '' @
     ''Avoid long or monotonous driving until score improves.''"

definition danger_message :: string where
  "danger_message =
     [CHR 0xF0, CHR 0x9F, CHR 0x9A, CHR 0xAB] @
     '' DANGER: High risk '' @ [CHR 0xE2, CHR 0x80, CHR 0x94] @
     '' DO NOT DRIVE. Take a sustained rest (1'' @ [CHR 0xE2, CHR 0x80, CHR 0x93] @
     ''2 hours) '' @
     ''or seek replacement before resuming.''"

definition get_action_message :: "real \<Rightarrow> string" where
  "get_action_message score =
     (if score < 3 then safe_message
      else if score < 5 then caution_message
      else danger_message)"

subsection \<open>Library objects used by the pipeline\<close>

text \<open>
  scikit-learn and numpy are not part of the repository. Of their objects the pipeline
  uses, the label encoder is modelled concretely, by its documented behaviour: fitting
  stores the sorted distinct labels in \<^verbatim>\<open>classes_\<close> (the field \<open>le_classes\<close>);
  \<^verbatim>\<open>fit_transform\<close> also returns each label's position there; \<^verbatim>\<open>transform\<close> maps
  a label to its position and raises \<^verbatim>\<open>ValueError\<close> on a label that was not seen when
  fitting.

  A fitted scaler and a fitted classifier are objects with the methods that
  \<^verbatim>\<open>predict_status\<close> calls. Each call either returns or raises: the libraries validate
  their input and raise, among others, \<^verbatim>\<open>OverflowError\<close> on a Python integer too large
  for a double and \<^verbatim>\<open>ValueError\<close> on a value that is not finite in the classifier's
  32-bit floats. Which inputs make a given object raise is not fixed here.

  What \<^verbatim>\<open>predict_proba\<close> returns for one row is an array of class probabilities: one
  entry for each class the classifier was fitted on, at least one, each between 0 and 1.
  This is the type \<open>class_probabilities\<close>. \<^verbatim>\<open>ndarray.max\<close> raises \<^verbatim>\<open>ValueError\<close> on an
  empty array.
\<close>

datatype py_error = ValueError | OverflowError | OtherError string

typedef class_probabilities =
  "{ps :: real list. ps \<noteq> [] \<and> list_all (\<lambda>p. 0 \<le> p \<and> p \<le> 1) ps}"
  by (rule exI [of _ "[1]"]) simp

record LabelEncoder =
  le_classes :: "string list"

record StandardScaler =
  transform :: "real list \<Rightarrow> py_error + real list"

record RandomForestClassifier =
  predict :: "real list \<Rightarrow> py_error + string"
  predict_proba :: "real list \<Rightarrow> py_error + class_probabilities"

fun index_of :: "'a list \<Rightarrow> 'a \<Rightarrow> nat" where
  "index_of [] y = 0"
| "index_of (x # xs) y = (if x = y then 0 else Suc (index_of xs y))"

definition LabelEncoder_fit :: "string list \<Rightarrow> LabelEncoder" where
  "LabelEncoder_fit y = \<lparr>le_classes = sort (remdups y)\<rparr>"

definition LabelEncoder_transform :: "LabelEncoder \<Rightarrow> string \<Rightarrow> py_error + nat" where
  "LabelEncoder_transform le y =
     (if y \<in> set (le_classes le) then Inr (index_of (le_classes le) y) else Inl ValueError)"

fun ndarray_max :: "real list \<Rightarrow> py_error + real" where
  "ndarray_max [] = Inl ValueError"
| "ndarray_max (p # ps) = Inr (fold max ps p)"

subsection \<open>\<^verbatim>\<open>train_model\<close> (model.py, lines 39-57)\<close>

text \<open>
  The synthetic frame is drawn by numpy's generator (\<^verbatim>\<open>generate_synthetic_data\<close>,
  3000 rows, seed 42). The draws are not modelled: the frame \<open>df\<close> is a parameter, a
  list of rows. A column is the list of its values in row order. The two fitting calls,
  \<^verbatim>\<open>scaler.fit_transform(X)\<close> (which yields the fitted scaler and the scaled frame) and
  \<^verbatim>\<open>model.fit(X_scaled, y)\<close>, are parameters as well; they are applied to the synthetic
  frame only.
\<close>

text \<open>The seven feature columns of one row, in the order of lines 47-48 and 63-71.\<close>

definition feature_columns :: "'a feature_row_scheme \<Rightarrow> nat \<Rightarrow> real list" where
  "feature_columns row Time_of_Day_enc =
     [Sleep_Hours row, Driving_Hours row, Caffeine_Cups row, Rest_Breaks row,
      real_of_int (Age row), Stress_Level row, real Time_of_Day_enc]"

text \<open>Line 41: the column \<^verbatim>\<open>Fatigue_Score\<close>.\<close>

definition Fatigue_Score_column :: "'a feature_row_scheme list \<Rightarrow> real list" where
  "Fatigue_Score_column df = map weighted_fatigue_score df"

text \<open>Line 42: the lambda, and the column \<^verbatim>\<open>Driver_Status\<close> it yields.\<close>

definition Driver_Status_of :: "real \<Rightarrow> string" where
  "Driver_Status_of x = (if x \<ge> 5 then ''Fatigued'' else ''Alert'')"

definition Driver_Status_column :: "'a feature_row_scheme list \<Rightarrow> string list" where
  "Driver_Status_column df = map Driver_Status_of (Fatigue_Score_column df)"

definition train_model ::
  "(real list list \<Rightarrow> StandardScaler \<times> real list list) \<Rightarrow>
   (real list list \<Rightarrow> string list \<Rightarrow> RandomForestClassifier) \<Rightarrow>
   'a feature_row_scheme list \<Rightarrow>
   RandomForestClassifier \<times> StandardScaler \<times> LabelEncoder" where
  "train_model scaler_fit_transform forest_fit df =
     (let Fatigue_Score = Fatigue_Score_column df;
          Driver_Status = map Driver_Status_of Fatigue_Score;
          le_time = LabelEncoder_fit (map Time_of_Day df);
          Time_of_Day_enc = map (\<lambda>row. index_of (le_classes le_time) (Time_of_Day row)) df;
          X = map2 feature_columns df Time_of_Day_enc;
          y = Driver_Status;
          (scaler, X_scaled) = scaler_fit_transform X;
          model = forest_fit X_scaled y
      in (model, scaler, le_time))"

subsection \<open>\<^verbatim>\<open>predict_status\<close> (model.py, lines 62-79)\<close>

text \<open>
  The calls are made in the source's order, and the first one that raises ends the
  function: line 70 (the encoder), line 73 (the scaler), line 74 (\<^verbatim>\<open>predict\<close>),
  line 75 (\<^verbatim>\<open>predict_proba\<close>), line 76 (\<^verbatim>\<open>probs.max()\<close>), line 77 (the score).
\<close>

definition predict_status ::
  "RandomForestClassifier \<Rightarrow> StandardScaler \<Rightarrow> LabelEncoder \<Rightarrow> 'a feature_row_scheme \<Rightarrow>
   py_error + (string \<times> real \<times> real)" where
  "predict_status model scaler le_time input_data =
     (case LabelEncoder_transform le_time (Time_of_Day input_data) of
        Inl e \<Rightarrow> Inl e
      | Inr Time_of_Day_enc \<Rightarrow>
     (case transform scaler (feature_columns input_data Time_of_Day_enc) of
        Inl e \<Rightarrow> Inl e
      | Inr X_scaled \<Rightarrow>
     (case predict model X_scaled of
        Inl e \<Rightarrow> Inl e
      | Inr pred \<Rightarrow>
     (case predict_proba model X_scaled of
        Inl e \<Rightarrow> Inl e
      | Inr probs \<Rightarrow>
     (case ndarray_max (Rep_class_probabilities probs) of
        Inl e \<Rightarrow> Inl e
      | Inr confidence \<Rightarrow>
          (let score = weighted_fatigue_score input_data
           in Inr (pred, confidence, score)))))))"

subsection \<open>The Add Driver form handler (streamlit_app.py, lines 134-159)\<close>

text \<open>
  A stored record has the keys of \<^verbatim>\<open>input_data\<close> and the four derived ones. The
  session state holds the record table \<^verbatim>\<open>driver_records\<close>, a list in row order. The
  time stamp is read from the clock and is a parameter. \<^verbatim>\<open>pd.concat\<close> with
  \<^verbatim>\<open>ignore_index=True\<close> puts the rows of the second frame after those of the first.

  The handler yields how the run of lines 134-159 ended and the session state after it.
  An exception of line 146 is not caught: the run ends there, before the assignment of
  line 156, and the session state is the one before the submission.
\<close>

record prediction_record = driver_input +
  Timestamp :: string
  Fatigue_Score :: real
  Prediction :: string
  Confidence :: real

record session_state =
  driver_records :: "prediction_record list"


text \<open>Lines 32-37: a new session starts with an empty table.\<close>

definition initial_session :: session_state where
  "initial_session = \<lparr>driver_records = []\<rparr>"

subsection \<open>Example objects\<close>

definition example_row :: feature_row where
  "example_row =
     \<lparr>Sleep_Hours = 7, Driving_Hours = 5, Caffeine_Cups = 1, Rest_Breaks = 30,
      Age = 35, Stress_Level = 4, Time_of_Day = ''Morning''\<rparr>"

definition example_night_row :: feature_row where
  "example_night_row =
     \<lparr>Sleep_Hours = 4, Driving_Hours = 10, Caffeine_Cups = 0, Rest_Breaks = 0,
      Age = 50, Stress_Level = 8, Time_of_Day = ''Night''\<rparr>"

definition example_evening_row :: feature_row where
  "example_evening_row = example_row\<lparr>Time_of_Day := ''Evening''\<rparr>"

text \<open>A row whose age is a Python integer beyond the range of the doubles.\<close>

definition huge_age :: int where
  "huge_age = 10 ^ 400"

definition example_huge_age_row :: feature_row where
  "example_huge_age_row = example_row\<lparr>Age := huge_age\<rparr>"

definition example_input :: driver_input where
  "example_input =
     \<lparr>Sleep_Hours = 7, Driving_Hours = 5, Caffeine_Cups = 1, Rest_Breaks = 30,
      Age = 35, Stress_Level = 4, Time_of_Day = ''Morning'', Name = ''Driver 1''\<rparr>"

text \<open>
  An input the form accepts (its sleep field has a lower bound only): the double
  \<open>2^200\<close>, about 1.6e60, beyond the largest 32-bit float.
\<close>

definition huge_sleep :: real where
  "huge_sleep = 2 ^ 200"

definition example_huge_sleep_input :: driver_input where
  "example_huge_sleep_input = example_input\<lparr>Sleep_Hours := huge_sleep\<rparr>"

definition example_frame :: "feature_row list" where
  "example_frame = [example_row, example_night_row]"




definition example_encoder :: LabelEncoder where
  "example_encoder = LabelEncoder_fit [''Morning'', ''Afternoon'', ''Night'', ''Morning'']"

text \<open>
  A scaler that leaves the features as they are and, as the library's conversion to
  doubles does, raises \<^verbatim>\<open>OverflowError\<close> on a number of magnitude \<open>2^1024\<close> or more.
\<close>

definition example_scaler :: StandardScaler where
  "example_scaler =
     \<lparr>transform =
        (\<lambda>X. if list_ex (\<lambda>x. 2 ^ 1024 \<le> \<bar>x\<bar>) X then Inl OverflowError else Inr X)\<rparr>"

text \<open>
  A classifier that, as the library's input validation does, raises \<^verbatim>\<open>ValueError\<close> on
  a feature beyond the largest 32-bit float, and otherwise answers "Alert" with the
  class probabilities 0.75 and 0.25.
\<close>

definition float32_max :: real where
  "float32_max = (2 ^ 24 - 1) * 2 ^ 104"

definition example_probabilities :: class_probabilities where
  "example_probabilities = Abs_class_probabilities [0.75, 0.25]"

definition example_classifier :: RandomForestClassifier where
  "example_classifier =
     \<lparr>predict =
        (\<lambda>X. if list_ex (\<lambda>x. float32_max < \<bar>x\<bar>) X then Inl ValueError else Inr ''Alert''),
      predict_proba =
        (\<lambda>X. if list_ex (\<lambda>x. float32_max < \<bar>x\<bar>) X then Inl ValueError
             else Inr example_probabilities)\<rparr>"

text \<open>
  The row of doubles 7.0, 8.25, 2.0, 12.0, 4, "Morning", on which two operations round,
  and a row whose caffeine field is NaN and whose other fields carry no penalty.
\<close>

definition rounding_row :: binary64_row where
  "rounding_row =
     \<lparr>Sleep_Hours64 = Finite 7, Driving_Hours64 = Finite 8.25, Caffeine_Cups64 = Finite 2,
      Rest_Breaks64 = Finite 12, Stress_Level64 = Finite 4, Time_of_Day64 = ''Morning''\<rparr>"

definition nan_caffeine_row :: binary64_row where
  "nan_caffeine_row =
     \<lparr>Sleep_Hours64 = Finite 8, Driving_Hours64 = Finite 6, Caffeine_Cups64 = NaN,
      Rest_Breaks64 = Finite 20, Stress_Level64 = Finite 5, Time_of_Day64 = ''Morning''\<rparr>"

section \<open>Properties\<close>

subsection \<open>Facts about the library objects\<close>

lemma example_encoder_classes:
  "le_classes example_encoder = [''Afternoon'', ''Morning'', ''Night'']"
  by (simp add: example_encoder_def LabelEncoder_fit_def)

lemma ndarray_max_Max:
  assumes "ps \<noteq> []"
  shows "ndarray_max ps = Inr (Max (set ps))"
proof (cases ps)
  case Nil
  with assms show ?thesis by simp
next
  case (Cons p qs)
  have "fold max qs p = Max (set (p # qs))"
    by (rule Max.set_eq_fold [symmetric])
  with Cons show ?thesis by simp
qed

lemma probabilities_nonempty: "Rep_class_probabilities probs \<noteq> []"
  using Rep_class_probabilities [of probs] by simp

lemma probabilities_range:
  assumes "p \<in> set (Rep_class_probabilities probs)"
  shows "0 \<le> p \<and> p \<le> 1"
  using Rep_class_probabilities [of probs] assms by (simp add: list_all_iff)

lemma probabilities_max:
  "ndarray_max (Rep_class_probabilities probs) = Inr (Max (set (Rep_class_probabilities probs)))"
  by (rule ndarray_max_Max) (rule probabilities_nonempty)

lemma probabilities_max_range:
  "0 \<le> Max (set (Rep_class_probabilities probs))
   \<and> Max (set (Rep_class_probabilities probs)) \<le> 1"
proof -
  have "Max (set (Rep_class_probabilities probs)) \<in> set (Rep_class_probabilities probs)"
    by (rule Max_in) (simp_all add: probabilities_nonempty)
  then show ?thesis by (rule probabilities_range)
qed

lemma example_probabilities_list:
  "Rep_class_probabilities example_probabilities = [0.75, 0.25]"
  by (simp add: example_probabilities_def Abs_class_probabilities_inverse)

lemma example_scores:
  "weighted_fatigue_score example_row = 2.5"
  "weighted_fatigue_score example_night_row = 16.3"
  "weighted_fatigue_score example_input = 2.5"
  by (simp_all add: weighted_fatigue_score_def example_row_def example_night_row_def
        example_input_def)

lemma example_features:
  "Time_of_Day example_row = ''Morning''"
  "Time_of_Day example_input = ''Morning''"
  "Time_of_Day example_evening_row = ''Evening''"
  "Time_of_Day example_huge_age_row = ''Morning''"
  "Time_of_Day example_huge_sleep_input = ''Morning''"
  "feature_columns example_row n = [7, 5, 1, 30, 35, 4, real n]"
  "feature_columns example_input n = [7, 5, 1, 30, 35, 4, real n]"
  "feature_columns example_huge_age_row n = [7, 5, 1, 30, real_of_int huge_age, 4, real n]"
  "feature_columns example_huge_sleep_input n = [huge_sleep, 5, 1, 30, 35, 4, real n]"
  by (simp_all add: feature_columns_def example_row_def example_input_def
        example_evening_row_def example_huge_age_row_def example_huge_sleep_input_def)

lemma power_bounds:
  "(35::real) < 2 ^ 1024" "(30::real) < 2 ^ 1024" "(7::real) < 2 ^ 1024"
  "(5::real) < 2 ^ 1024" "(4::real) < 2 ^ 1024" "(1::real) < 2 ^ 1024"
  "\<bar>huge_sleep\<bar> < 2 ^ 1024" "2 ^ 1024 \<le> \<bar>real_of_int huge_age\<bar>"
  "(35::real) \<le> float32_max" "(30::real) \<le> float32_max" "(7::real) \<le> float32_max"
  "(5::real) \<le> float32_max" "(4::real) \<le> float32_max" "(1::real) \<le> float32_max"
  "float32_max < \<bar>huge_sleep\<bar>"
  by (simp_all add: float32_max_def huge_sleep_def huge_age_def)

lemma example_calls:
  "transform example_scaler [7, 5, 1, 30, 35, 4, 1] = Inr [7, 5, 1, 30, 35, 4, 1]"
  "transform example_scaler [7, 5, 1, 30, real_of_int huge_age, 4, 1] = Inl OverflowError"
  "transform example_scaler [huge_sleep, 5, 1, 30, 35, 4, 1] = Inr [huge_sleep, 5, 1, 30, 35, 4, 1]"
  "predict example_classifier [7, 5, 1, 30, 35, 4, 1] = Inr ''Alert''"
  "predict_proba example_classifier [7, 5, 1, 30, 35, 4, 1] = Inr example_probabilities"
  "predict example_classifier [huge_sleep, 5, 1, 30, 35, 4, 1] = Inl ValueError"
  using power_bounds
  by (simp_all add: example_scaler_def example_classifier_def not_le [symmetric])

lemma example_predictions:
  "predict_status example_classifier example_scaler example_encoder example_row
     = Inr (''Alert'', 0.75, 2.5)"
  "predict_status example_classifier example_scaler example_encoder example_input
     = Inr (''Alert'', 0.75, 2.5)"
  "predict_status example_classifier example_scaler example_encoder example_evening_row
     = Inl ValueError"
  "predict_status example_classifier example_scaler example_encoder example_huge_age_row
     = Inl OverflowError"
  "predict_status example_classifier example_scaler example_encoder example_huge_sleep_input
     = Inl ValueError"
  by (simp_all add: predict_status_def LabelEncoder_transform_def example_encoder_classes
        example_features example_calls example_probabilities_list example_scores)

subsection \<open>Facts about binary64 arithmetic\<close>

lemma halvings_numeral:
  "halvings (numeral k) a = (if a < 2 ^ 53 then 0 else Suc (halvings (pred_numeral k) (a / 2)))"
  by (simp add: numeral_eq_Suc)

lemma doublings_numeral:
  "doublings (numeral k) a =
     (if 2 ^ 52 \<le> a then 0 else Suc (doublings (pred_numeral k) (a * 2)))"
  by (simp add: numeral_eq_Suc)

lemmas binary64_eval =
  to_binary64_def round_binary64_def round_half_even_def Let_def halvings_numeral
  doublings_numeral sub64_def gt64_def ge64_def py_max_0_def

lemma binary64_literals:
  "to_binary64 1.2 = Finite (5404319552844595 / 4503599627370496)"
  "to_binary64 0.1 = Finite (3602879701896397 / 36028797018963968)"
  by (simp_all add: binary64_eval)

text \<open>
  The rounding at work: an exact value, a value that rounds, the two ties above \<open>2^53\<close>
  (to the even mantissa), overflow, and underflow to zero.
\<close>

lemma binary64_rounding_examples:
  "to_binary64 1.5 = Finite 1.5"
  "to_binary64 (- 2.7) = Finite (- (3039929748475085 / 1125899906842624))"
  "to_binary64 (2 ^ 53 + 1) = Finite (2 ^ 53)"
  "to_binary64 (2 ^ 53 + 3) = Finite (2 ^ 53 + 4)"
  "to_binary64 (2 ^ 1024) = PosInf"
  "to_binary64 (1 / 2 ^ 1075) = Finite 0"
  by (simp_all add: binary64_eval)

lemma ge64_2_iff: "ge64 c (Finite 2) \<longleftrightarrow> \<not> (lt64 c (Finite 2) \<or> c = NaN)"
  by (cases c) (auto simp add: ge64_def)

lemma example_scores64:
  "weighted_fatigue_score64 rounding_row = Finite (5 - 1 / 2 ^ 50)"
  "weighted_fatigue_score64 nan_caffeine_row = Finite 1"
  by (simp_all add: weighted_fatigue_score64_def rounding_row_def nan_caffeine_row_def
        binary64_eval)

subsection \<open>The scoring formula\<close>

text \<open>
  C1. For the row Sleep_Hours = 7, Driving_Hours = 5, Caffeine_Cups = 1, Rest_Breaks = 30,
  Stress_Level = 4, Time_of_Day = "Morning", the score is exactly 2.5, and the risk level
  of that score is "Low Risk". The score does not read the age, so the statement holds for
  every age.
\<close>

theorem example_row_score:
  "weighted_fatigue_score
     \<lparr>Sleep_Hours = 7, Driving_Hours = 5, Caffeine_Cups = 1, Rest_Breaks = 30,
      Age = a, Stress_Level = 4, Time_of_Day = ''Morning''\<rparr> = 2.5
   \<and> get_risk_level
       (weighted_fatigue_score
          \<lparr>Sleep_Hours = 7, Driving_Hours = 5, Caffeine_Cups = 1, Rest_Breaks = 30,
           Age = a, Stress_Level = 4, Time_of_Day = ''Morning''\<rparr>) = ''Low Risk''"
  by (simp add: weighted_fatigue_score_def get_risk_level_def)

text \<open>
  C2, as stated, fails: the score is not always the sum of the six terms. On the row
  of doubles 7.0, 8.25, 2.0, 12.0, 4, "Morning" the product \<open>2.25 * 1.2\<close> and the sums
  round, and the score is the double just below 5, \<open>5 - 2^-50\<close> (printed
  4.999999999999999), while the six terms add up to 5. And on a row whose Caffeine_Cups
  is NaN and whose other fields carry no penalty the score is 1.0, although
  \<open>Caffeine_Cups < 2\<close> does not hold: line 29 tests \<open>Caffeine_Cups >= 2\<close>, which is
  false for NaN as well.
\<close>

theorem score_differs_from_sum_of_six_terms:
  "weighted_fatigue_score64 rounding_row = Finite (5 - 1 / 2 ^ 50)
   \<and> max 0 (8 - 7) * 1.5 + max 0 (8.25 - 6) * 1.2 + 0 + max 0 (20 - 12) * 0.1 + 0 + 0
       = (5::real)
   \<and> weighted_fatigue_score64 nan_caffeine_row = Finite 1
   \<and> \<not> lt64 (Caffeine_Cups64 nan_caffeine_row) (Finite 2)"
  by (simp add: example_scores64) (simp add: nan_caffeine_row_def)

text \<open>
  C2, amended. For every row whose numeric fields are doubles, the score is the six
  terms added up from 0 in the source's order in double arithmetic, every difference,
  product and sum rounded to the nearest double: \<open>max(0, 8 - Sleep_Hours) * 1.5\<close>,
  \<open>max(0, Driving_Hours - 6) * 1.2\<close>, 1.0 exactly when \<open>Caffeine_Cups < 2\<close> or
  Caffeine_Cups is NaN (else 0), \<open>max(0, 20 - Rest_Breaks) * 0.1\<close>,
  \<open>(Stress_Level - 5) * 0.5\<close> exactly when \<open>Stress_Level > 5\<close> (else 0), and 1.0 added
  exactly when the time of day is "Night".
\<close>

theorem score64_is_rounded_sum_of_six_terms:
  "weighted_fatigue_score64 row =
     (let sum5 =
        add64 (add64 (add64 (add64 (add64 (Finite 0)
          (mul64 (py_max_0 (sub64 (Finite 8) (Sleep_Hours64 row))) (Finite 1.5)))
          (mul64 (py_max_0 (sub64 (Driving_Hours64 row) (Finite 6))) (to_binary64 1.2)))
          (if lt64 (Caffeine_Cups64 row) (Finite 2) \<or> Caffeine_Cups64 row = NaN
           then Finite 1.0 else Finite 0))
          (mul64 (py_max_0 (sub64 (Finite 20) (Rest_Breaks64 row))) (to_binary64 0.1)))
          (if gt64 (Stress_Level64 row) (Finite 5)
           then mul64 (sub64 (Stress_Level64 row) (Finite 5)) (Finite 0.5)
           else Finite 0)
      in if Time_of_Day64 row = ''Night'' then add64 sum5 (Finite 1.0) else sum5)"
  by (simp add: weighted_fatigue_score64_def Let_def ge64_2_iff)




subsection \<open>Risk bands\<close>

text \<open>
  C10. The three helpers cut the scores at the same thresholds: a score below 3 gives
  the green colour, "Low Risk" and the SAFE message; a score from 3 up to, not including,
  5 gives the orange colour, "Moderate Risk" and the CAUTION message; a score of 5 or
  more gives the red colour, "High Risk" and the DANGER message. So one helper names a
  band exactly when the others name it, and the top band is the set of scores that the
  training labels "Fatigued".
\<close>

theorem risk_helpers_same_bands:
  "(s < 3 \<longrightarrow>
      get_risk_color s = ''#10b981'' \<and> get_risk_level s = ''Low Risk''
      \<and> get_action_message s = safe_message)
   \<and> (3 \<le> s \<and> s < 5 \<longrightarrow>
      get_risk_color s = ''#f59e0b'' \<and> get_risk_level s = ''Moderate Risk''
      \<and> get_action_message s = caution_message)
   \<and> (5 \<le> s \<longrightarrow>
      get_risk_color s = ''#ef4444'' \<and> get_risk_level s = ''High Risk''
      \<and> get_action_message s = danger_message)
   \<and> (get_risk_color s = ''#10b981'' \<longleftrightarrow> get_risk_level s = ''Low Risk'')
   \<and> (get_risk_level s = ''Low Risk'' \<longleftrightarrow> get_action_message s = safe_message)
   \<and> (get_risk_color s = ''#f59e0b'' \<longleftrightarrow> get_risk_level s = ''Moderate Risk'')
   \<and> (get_risk_level s = ''Moderate Risk'' \<longleftrightarrow> get_action_message s = caution_message)
   \<and> (get_risk_color s = ''#ef4444'' \<longleftrightarrow> get_risk_level s = ''High Risk'')
   \<and> (get_risk_level s = ''High Risk'' \<longleftrightarrow> get_action_message s = danger_message)
   \<and> (get_risk_level s = ''High Risk'' \<longleftrightarrow> Driver_Status_of s = ''Fatigued'')"
  by (simp add: get_risk_color_def get_risk_level_def get_action_message_def
        Driver_Status_of_def safe_message_def caution_message_def danger_message_def)

theorem risk_helpers_same_bands_witness:
  "(1::real) < 3 \<and> get_risk_color 1 = ''#10b981'' \<and> get_risk_level 1 = ''Low Risk''
     \<and> get_action_message 1 = safe_message
   \<and> (3::real) \<le> 4 \<and> (4::real) < 5 \<and> get_risk_color 4 = ''#f59e0b''
     \<and> get_risk_level 4 = ''Moderate Risk'' \<and> get_action_message 4 = caution_message
   \<and> (5::real) \<le> 5 \<and> get_risk_color 5 = ''#ef4444'' \<and> get_risk_level 5 = ''High Risk''
     \<and> get_action_message 5 = danger_message"
  using risk_helpers_same_bands [of 1] risk_helpers_same_bands [of 4]
    risk_helpers_same_bands [of 5]
  by simp

subsection \<open>Training labels\<close>

text \<open>
  C4. In \<open>train_model\<close> every row of the synthetic frame gets the label "Fatigued" if
  and only if its score is at least 5, and "Alert" otherwise; no other label occurs. The
  label column has one entry per row, and it is the column handed to the classifier's
  fitting routine (whatever that routine is: here any function of the labels alone).
\<close>

theorem driver_status_labels:
  "length (Driver_Status_column df) = length df
   \<and> (\<forall>i < length df.
        (Driver_Status_column df ! i = ''Fatigued'' \<longleftrightarrow> weighted_fatigue_score (df ! i) \<ge> 5)
        \<and> (Driver_Status_column df ! i = ''Alert'' \<longleftrightarrow> \<not> weighted_fatigue_score (df ! i) \<ge> 5))
   \<and> set (Driver_Status_column df) \<subseteq> {''Fatigued'', ''Alert''}
   \<and> fst (train_model scaler_fit (\<lambda>X y. c y) df) = c (Driver_Status_column df)"
  by (auto simp add: Driver_Status_column_def Fatigue_Score_column_def Driver_Status_of_def
        train_model_def Let_def split: prod.splits)

theorem driver_status_labels_witness:
  "(0::nat) < length example_frame
   \<and> Driver_Status_column example_frame ! 0 = ''Alert''
   \<and> \<not> weighted_fatigue_score (example_frame ! 0) \<ge> 5
   \<and> (1::nat) < length example_frame
   \<and> Driver_Status_column example_frame ! 1 = ''Fatigued''
   \<and> weighted_fatigue_score (example_frame ! 1) \<ge> 5"
proof -
  have len: "(0::nat) < length example_frame" "(1::nat) < length example_frame"
    by (simp_all add: example_frame_def)
  have sc: "\<not> weighted_fatigue_score (example_frame ! 0) \<ge> 5"
    "weighted_fatigue_score (example_frame ! 1) \<ge> 5"
    by (simp_all add: example_frame_def example_scores)
  from driver_status_labels [of example_frame] len sc show ?thesis
    by simp
qed

subsection \<open>Prediction\<close>

text \<open>
  C5, as stated, fails: \<open>predict_status\<close> does not return a triple for every input
  row. When the row's time of day is not one of the labels the encoder was fitted on,
  line 70 raises \<^verbatim>\<open>ValueError\<close>; when a library call of lines 73-75 raises, so does
  \<open>predict_status\<close>. Here the encoder was fitted on "Morning", "Afternoon" and "Night"
  and the first row's time of day is "Evening"; the second row's age is the Python
  integer \<open>10^400\<close>, on which the scaler raises \<^verbatim>\<open>OverflowError\<close>.
\<close>

theorem predict_status_raises:
  "predict_status example_classifier example_scaler example_encoder example_evening_row
     = Inl ValueError
   \<and> predict_status example_classifier example_scaler example_encoder example_huge_age_row
     = Inl OverflowError"
  by (simp add: example_predictions)

text \<open>
  C5, amended. For every input row, \<open>predict_status\<close> returns a triple when the library
  calls of lines 70-75 return: when the row's time of day is one of the labels the encoder
  was fitted on and \<^verbatim>\<open>scaler.transform\<close>, \<^verbatim>\<open>model.predict\<close> and
  \<^verbatim>\<open>model.predict_proba\<close> return. The triple is (label, confidence, score): the label is
  the classifier's prediction, the score is \<open>weighted_fatigue_score\<close> of that exact row,
  computed independently of the classifier, and the confidence is the maximum of the
  classifier's per-class probabilities for that row (so it lies in [0, 1]). When the
  time of day is not one of the encoder's labels, \<open>predict_status\<close> raises
  \<^verbatim>\<open>ValueError\<close>; when one of the three other calls raises, it raises that exception. In
  these cases it returns nothing.
\<close>

theorem predict_status_outcomes:
  "(Time_of_Day row \<in> set (le_classes le_time)
      \<and> transform scaler
          (feature_columns row (index_of (le_classes le_time) (Time_of_Day row)))
          = Inr X_scaled
      \<and> predict model X_scaled = Inr pred
      \<and> predict_proba model X_scaled = Inr probs
    \<longrightarrow>
      predict_status model scaler le_time row
        = Inr (pred, Max (set (Rep_class_probabilities probs)), weighted_fatigue_score row)
      \<and> 0 \<le> Max (set (Rep_class_probabilities probs))
      \<and> Max (set (Rep_class_probabilities probs)) \<le> 1)
   \<and> (Time_of_Day row \<notin> set (le_classes le_time)
    \<longrightarrow> predict_status model scaler le_time row = Inl ValueError)
   \<and> (Time_of_Day row \<in> set (le_classes le_time)
      \<and> transform scaler
          (feature_columns row (index_of (le_classes le_time) (Time_of_Day row)))
          = Inl e
    \<longrightarrow> predict_status model scaler le_time row = Inl e)
   \<and> (Time_of_Day row \<in> set (le_classes le_time)
      \<and> transform scaler
          (feature_columns row (index_of (le_classes le_time) (Time_of_Day row)))
          = Inr X_scaled
      \<and> predict model X_scaled = Inl e
    \<longrightarrow> predict_status model scaler le_time row = Inl e)
   \<and> (Time_of_Day row \<in> set (le_classes le_time)
      \<and> transform scaler
          (feature_columns row (index_of (le_classes le_time) (Time_of_Day row)))
          = Inr X_scaled
      \<and> predict model X_scaled = Inr pred
      \<and> predict_proba model X_scaled = Inl e
    \<longrightarrow> predict_status model scaler le_time row = Inl e)"
  by (simp add: predict_status_def LabelEncoder_transform_def probabilities_max
        probabilities_max_range)

theorem predict_status_outcomes_witness:
  "Time_of_Day example_row \<in> set (le_classes example_encoder)
   \<and> transform example_scaler
        (feature_columns example_row
           (index_of (le_classes example_encoder) (Time_of_Day example_row)))
       = Inr [7, 5, 1, 30, 35, 4, 1]
   \<and> predict example_classifier [7, 5, 1, 30, 35, 4, 1] = Inr ''Alert''
   \<and> predict_proba example_classifier [7, 5, 1, 30, 35, 4, 1] = Inr example_probabilities
   \<and> predict_status example_classifier example_scaler example_encoder example_row
       = Inr (''Alert'', 0.75, 2.5)
   \<and> Time_of_Day example_evening_row \<notin> set (le_classes example_encoder)
   \<and> predict_status example_classifier example_scaler example_encoder example_evening_row
       = Inl ValueError
   \<and> Time_of_Day example_huge_age_row \<in> set (le_classes example_encoder)
   \<and> transform example_scaler
        (feature_columns example_huge_age_row
           (index_of (le_classes example_encoder) (Time_of_Day example_huge_age_row)))
       = Inl OverflowError
   \<and> predict_status example_classifier example_scaler example_encoder example_huge_age_row
       = Inl OverflowError"
proof -
  have h1: "Time_of_Day example_row \<in> set (le_classes example_encoder)"
    and h2: "transform example_scaler
        (feature_columns example_row
           (index_of (le_classes example_encoder) (Time_of_Day example_row)))
       = Inr [7, 5, 1, 30, 35, 4, 1]"
    by (simp_all add: example_encoder_classes example_features example_calls)
  have g1: "Time_of_Day example_evening_row \<notin> set (le_classes example_encoder)"
    by (simp add: example_encoder_classes example_features)
  have k1: "Time_of_Day example_huge_age_row \<in> set (le_classes example_encoder)"
    and k2: "transform example_scaler
        (feature_columns example_huge_age_row
           (index_of (le_classes example_encoder) (Time_of_Day example_huge_age_row)))
       = Inl OverflowError"
    by (simp_all add: example_encoder_classes example_features example_calls)
  from predict_status_outcomes
         [of example_row example_encoder example_scaler "[7, 5, 1, 30, 35, 4, 1]"
             example_classifier "''Alert''" example_probabilities]
       predict_status_outcomes [of example_evening_row example_encoder]
       predict_status_outcomes [of example_huge_age_row example_encoder example_scaler _ _ _ _
             OverflowError]
       h1 h2 g1 k1 k2
  show ?thesis
    by (simp add: example_calls example_probabilities_list example_scores)
qed

subsection \<open>The session's record table\<close>




end
